theory Spec2Isabelle
  imports Main "HOL-Library.AList" "HOL-Library.Multiset"
begin

section \<open>JavaScript values\<close>

text \<open>
  The front end is JavaScript: the records it handles are the JSON objects the backend
  answers with, and every guard of the code is a truthiness test. A string is its sequence
  of UTF-16 code units (the bullet U+2022 is one unit, 8226); property names are the ASCII
  identifiers of the source. Numbers are the integers JSON carries here (ids, flags,
  epoch milliseconds); \<open>NaN\<close> only arises as the result of a subtraction and is
  \<open>None\<close> of \<open>int option\<close> there.
\<close>

type_synonym ustring = "nat list"

definition ustr :: "string \<Rightarrow> ustring" where
  "ustr s = map of_char s"

datatype jsval =
    JUndefined
  | JNull
  | JBool bool
  | JNum int
  | JStr ustring
  | JObj "(string \<times> jsval) list"

type_synonym obj = "(string \<times> jsval) list"

datatype js_error = TypeError

text \<open>ToBoolean: what \<open>if (v)\<close>, \<open>!v\<close>, \<open>v && ...\<close> and \<open>v ? ... : ...\<close> test.\<close>

fun truthy :: "jsval \<Rightarrow> bool" where
  "truthy JUndefined = False"
| "truthy JNull = False"
| "truthy (JBool b) = b"
| "truthy (JNum n) = (n \<noteq> 0)"
| "truthy (JStr s) = (s \<noteq> [])"
| "truthy (JObj fs) = True"

text \<open>\<open>o.k\<close> on an object: the value stored, \<open>undefined\<close> for a missing key.\<close>

definition getv :: "obj \<Rightarrow> string \<Rightarrow> jsval" where
  "getv fs k = (case map_of fs k of None \<Rightarrow> JUndefined | Some v \<Rightarrow> v)"

text \<open>\<open>v.k\<close> on any value: a TypeError on \<open>undefined\<close> and \<open>null\<close>, \<open>undefined\<close>
  on the other primitives (none of the keys read by this code is a built-in property).\<close>

fun member :: "jsval \<Rightarrow> string \<Rightarrow> js_error + jsval" where
  "member JUndefined k = Inl TypeError"
| "member JNull k = Inl TypeError"
| "member (JObj fs) k = Inr (getv fs k)"
| "member v k = Inr JUndefined"

text \<open>\<open>v?.k\<close>: optional chaining.\<close>

fun optmember :: "jsval \<Rightarrow> string \<Rightarrow> jsval" where
  "optmember (JObj fs) k = getv fs k"
| "optmember v k = JUndefined"

text \<open>\<open>a || b\<close>.\<close>

definition js_or :: "jsval \<Rightarrow> jsval \<Rightarrow> jsval" where
  "js_or a b = (if truthy a then a else b)"

text \<open>\<open>a === b\<close>: equal primitives of one type; two objects parsed from two responses are
  never the same reference.\<close>

fun strict_eq :: "jsval \<Rightarrow> jsval \<Rightarrow> bool" where
  "strict_eq (JObj fs) b = False"
| "strict_eq a (JObj gs) = False"
| "strict_eq a b = (a = b)"

text \<open>\<open>{...o, k: v}\<close>: the own properties of \<open>o\<close> in their order, the key \<open>k\<close>
  overwritten where it stands or added last.\<close>

definition spread_with :: "obj \<Rightarrow> string \<Rightarrow> jsval \<Rightarrow> obj" where
  "spread_with fs k v = AList.update k v fs"

text \<open>The difference \<open>x - y\<close> of two numbers, either of which may be \<open>NaN\<close>.\<close>

fun num_sub :: "int option \<Rightarrow> int option \<Rightarrow> int option" where
  "num_sub (Some x) (Some y) = Some (x - y)"
| "num_sub x y = None"

section \<open>String built-ins\<close>

text \<open>White space and line terminators of ECMAScript, which \<open>String.prototype.trim\<close>
  strips from both ends.\<close>

definition isWhiteSpace :: "nat \<Rightarrow> bool" where
  "isWhiteSpace c =
     (c = 9 \<or> c = 10 \<or> c = 11 \<or> c = 12 \<or> c = 13 \<or> c = 32 \<or> c = 160 \<or> c = 5760
      \<or> (8192 \<le> c \<and> c \<le> 8202) \<or> c = 8232 \<or> c = 8233 \<or> c = 8239 \<or> c = 8287
      \<or> c = 12288 \<or> c = 65279)"

definition trimStart :: "ustring \<Rightarrow> ustring" where
  "trimStart s = dropWhile isWhiteSpace s"

definition trimEnd :: "ustring \<Rightarrow> ustring" where
  "trimEnd s = rev (dropWhile isWhiteSpace (rev s))"

definition trim :: "ustring \<Rightarrow> ustring" where
  "trim s = trimEnd (trimStart s)"

text \<open>\<open>s.split(sep)\<close> for a separator of one code unit: \<open>''.split(sep)\<close> is \<open>['']\<close>,
  and a separator at either end gives an empty part.\<close>

fun split_on :: "nat \<Rightarrow> ustring \<Rightarrow> ustring list" where
  "split_on sep [] = [[]]"
| "split_on sep (c # cs) =
     (if c = sep then [] # split_on sep cs
      else (case split_on sep cs of [] \<Rightarrow> [[c]] | p # ps \<Rightarrow> (c # p) # ps))"

definition LF :: nat where
  "LF = 10"

definition SPACE :: nat where
  "SPACE = 32"

definition BULLET :: nat where
  "BULLET = 8226"

text \<open>\<open>s.replace(c, '')\<close> for a pattern of one code unit: the first occurrence goes.\<close>

definition replace_first :: "nat \<Rightarrow> ustring \<Rightarrow> ustring" where
  "replace_first c s = remove1 c s"

text \<open>\<open>s[0]\<close>: the first code unit as a string, \<open>undefined\<close> (here \<open>None\<close>) on \<open>''\<close>.\<close>

fun char0 :: "ustring \<Rightarrow> ustring option" where
  "char0 [] = None"
| "char0 (c # cs) = Some [c]"

text \<open>\<open>x + y\<close> where each side is a string or \<open>undefined\<close>: a string absorbs
  \<open>undefined\<close> as the text \<open>undefined\<close>; \<open>undefined + undefined\<close> is the number
  \<open>NaN\<close>, which is no string (\<open>None\<close>).\<close>

fun plus_str :: "ustring option \<Rightarrow> ustring option \<Rightarrow> ustring option" where
  "plus_str (Some x) (Some y) = Some (x @ y)"
| "plus_str (Some x) None = Some (x @ ustr ''undefined'')"
| "plus_str None (Some y) = Some (ustr ''undefined'' @ y)"
| "plus_str None None = None"

section \<open>services/api.js\<close>

text \<open>The routes of the backend, with the email id where the URL carries one.\<close>

datatype endpoint =
    ApiStatus
  | ApiEmailsSync
  | ApiEmails
  | ApiStats
  | ApiEmail jsval
  | ApiEmailReply jsval
  | ApiEmailRegenerate jsval
  | AuthLogin

text \<open>A request as axios sends it: the method, the route and, for a POST, the JSON body.\<close>

datatype request = GET endpoint | POST endpoint "jsval option"

text \<open>What a request comes back with: the promise rejects with an error object, or
  resolves and the function returns \<open>response.data\<close>.\<close>

datatype 'a outcome = Rejected obj | Resolved 'a

definition getStatus :: request where
  "getStatus = GET ApiStatus"

definition syncEmails :: request where
  "syncEmails = POST ApiEmailsSync None"

definition getEmails :: request where
  "getEmails = GET ApiEmails"

definition getStats :: request where
  "getStats = GET ApiStats"

definition getEmailDetails :: "jsval \<Rightarrow> request" where
  "getEmailDetails emailId = GET (ApiEmail emailId)"

definition sendReply :: "jsval \<Rightarrow> jsval \<Rightarrow> request" where
  "sendReply emailId content = POST (ApiEmailReply emailId) (Some (JObj [(''content'', content)]))"

definition regenerateReply :: "jsval \<Rightarrow> request" where
  "regenerateReply emailId = POST (ApiEmailRegenerate emailId) None"

text \<open>\<open>getSenderInitials(name, email)\<close>. Both arguments are a string or absent
  (\<open>None\<close>); \<open>toUpperCase\<close> is the Unicode upper-casing of the engine. A TypeError is
  what calling \<open>toUpperCase\<close> on \<open>undefined\<close> or on \<open>NaN\<close> throws.\<close>

definition getSenderInitials ::
    "(ustring \<Rightarrow> ustring) \<Rightarrow> ustring option \<Rightarrow> ustring option \<Rightarrow> js_error + ustring" where
  "getSenderInitials toUpperCase name email =
     (if name \<noteq> None \<and> name \<noteq> Some [] then
        (let parts = split_on SPACE (the name) in
         if length parts > 1 then
           (case plus_str (char0 (parts ! 0)) (char0 (parts ! 1)) of
              None \<Rightarrow> Inl TypeError
            | Some s \<Rightarrow> Inr (toUpperCase s))
         else
           (case char0 (parts ! 0) of
              None \<Rightarrow> Inl TypeError
            | Some s \<Rightarrow> Inr (toUpperCase s)))
      else if email \<noteq> None \<and> email \<noteq> Some [] then
        (case char0 (the email) of
           None \<Rightarrow> Inl TypeError
         | Some s \<Rightarrow> Inr (toUpperCase s))
      else Inr (ustr ''?''))"

definition getEmailPriority :: "obj \<Rightarrow> ustring" where
  "getEmailPriority email = ustr ''normal''"

section \<open>App.js: the application state and its handlers\<close>

text \<open>
  A handler is a function from the state, and from what the backend answers to the
  requests it awaits, to the state after the handler has run to its end and the effects it
  had, in order: requests sent, toasts shown, callbacks of the parent called. Console
  output is left out.
\<close>

datatype toast =
    ToastSuccess jsval
  | ToastError jsval
  | ToastErrorConcat ustring jsval

datatype effect =
    Request request
  | Toast toast
  | OnUpdate obj
  | OnClose
  | OnCloseAfter nat

record App_state =
  emails :: "obj list"
  loading :: bool
  syncing :: bool
  authenticated :: jsval
  ollamaStatus :: jsval
  selectedEmail :: "obj option"
  sidebarCollapsed :: bool
  filter_by :: ustring
  searchQuery :: ustring

definition App_init :: App_state where
  "App_init =
     \<lparr>emails = [], loading = True, syncing = False, authenticated = JBool False,
      ollamaStatus = JBool False, selectedEmail = None, sidebarCollapsed = False,
      filter_by = ustr ''all'', searchQuery = []\<rparr>"

definition checkStatus :: "App_state \<Rightarrow> jsval outcome \<Rightarrow> App_state \<times> effect list" where
  "checkStatus st r =
     (case r of
        Rejected err \<Rightarrow>
          (st, [Request getStatus,
                Toast (ToastError (JStr (ustr ''Failed to check service status'')))])
      | Resolved status \<Rightarrow>
          (case (member status ''authenticated'', member status ''ollama_status'') of
             (Inr a, Inr s) \<Rightarrow>
               (st\<lparr>authenticated := a, ollamaStatus := s\<rparr>, [Request getStatus])
           | _ \<Rightarrow>
               (st, [Request getStatus,
                     Toast (ToastError (JStr (ustr ''Failed to check service status'')))])))"

text \<open>\<open>loadEmails\<close>: the body of the answer is an object whose \<open>emails\<close> is a list of
  email objects (\<open>Some\<close>) or is missing (\<open>None\<close>).\<close>

definition loadEmails :: "App_state \<Rightarrow> obj list option outcome \<Rightarrow> App_state \<times> effect list" where
  "loadEmails st r =
     (case r of
        Rejected err \<Rightarrow>
          (st\<lparr>loading := False\<rparr>,
           [Request getEmails, Toast (ToastError (JStr (ustr ''Failed to load emails'')))])
      | Resolved body \<Rightarrow>
          (st\<lparr>emails := (case body of None \<Rightarrow> [] | Some es \<Rightarrow> es), loading := False\<rparr>,
           [Request getEmails]))"

definition handleSync ::
    "App_state \<Rightarrow> jsval outcome \<Rightarrow> obj list option outcome \<Rightarrow> App_state \<times> effect list" where
  "handleSync st syncR loadR =
     (if \<not> truthy (authenticated st) then
        (st, [Toast (ToastError (JStr (ustr ''Please authenticate first'')))])
      else if \<not> truthy (ollamaStatus st) then
        (st, [Toast (ToastError
                (JStr (ustr ''Ollama service is not running. Please start Ollama first.'')))])
      else
        (case syncR of
           Rejected err \<Rightarrow>
             (st\<lparr>syncing := False\<rparr>,
              [Request syncEmails, Toast (ToastError (JStr (ustr ''Failed to sync emails'')))])
         | Resolved response \<Rightarrow>
             (case member response ''message'' of
                Inl e \<Rightarrow>
                  (st\<lparr>syncing := False\<rparr>,
                   [Request syncEmails,
                    Toast (ToastError (JStr (ustr ''Failed to sync emails'')))])
              | Inr msg \<Rightarrow>
                  (let (st1, eff) = loadEmails st loadR in
                   (st1\<lparr>syncing := False\<rparr>,
                    [Request syncEmails,
                     Toast (ToastSuccess
                       (js_or msg (JStr (ustr ''Emails synced successfully!''))))] @ eff)))))"

definition handleEmailUpdate :: "App_state \<Rightarrow> obj \<Rightarrow> App_state" where
  "handleEmailUpdate st updatedEmail =
     st\<lparr>emails := map (\<lambda>e. if strict_eq (getv e ''id'') (getv updatedEmail ''id'')
                            then updatedEmail else e) (emails st)\<rparr>"

text \<open>The \<open>emailCount\<close> prop the App hands to the Sidebar.\<close>

record emailCount =
  total :: nat
  unreplied :: nat
  replied :: nat

definition App_emailCount :: "App_state \<Rightarrow> emailCount" where
  "App_emailCount st =
     \<lparr>total = length (emails st),
      unreplied = length (filter (\<lambda>e. \<not> truthy (getv e ''has_reply'')) (emails st)),
      replied = length (filter (\<lambda>e. truthy (getv e ''has_reply'')) (emails st))\<rparr>"

datatype button = Hidden | Disabled | Enabled

text \<open>The Sync button of the header: always rendered,
  \<open>disabled={syncing || !authenticated || !ollamaStatus}\<close>.\<close>

definition App_syncButton :: "App_state \<Rightarrow> button" where
  "App_syncButton st =
     (if syncing st \<or> \<not> truthy (authenticated st) \<or> \<not> truthy (ollamaStatus st)
      then Disabled else Enabled)"

section \<open>components/Sidebar.js\<close>

text \<open>\<open>emailCount?.total || 0\<close> and its two siblings.\<close>

fun count_or_zero :: "nat option \<Rightarrow> nat" where
  "count_or_zero None = 0"
| "count_or_zero (Some n) = (if n \<noteq> 0 then n else 0)"

definition menuItems :: "emailCount option \<Rightarrow> (string \<times> string \<times> nat) list" where
  "menuItems ec =
     [(''all'', ''All Emails'', count_or_zero (map_option total ec)),
      (''unreplied'', ''Needs Reply'', count_or_zero (map_option unreplied ec)),
      (''replied'', ''Replied'', count_or_zero (map_option replied ec))]"

text \<open>The Sync button of the Sidebar, in both layouts: rendered only when authenticated,
  with the same \<open>disabled\<close> expression as the header's.\<close>

definition Sidebar_syncButton :: "jsval \<Rightarrow> jsval \<Rightarrow> bool \<Rightarrow> button" where
  "Sidebar_syncButton auth ollama sync =
     (if \<not> truthy auth then Hidden
      else if sync \<or> \<not> truthy auth \<or> \<not> truthy ollama then Disabled
      else Enabled)"

text \<open>A click reaches \<open>onSync\<close> only through a button that is rendered and enabled.\<close>

definition App_clickSync ::
    "App_state \<Rightarrow> jsval outcome \<Rightarrow> obj list option outcome \<Rightarrow> App_state \<times> effect list" where
  "App_clickSync st syncR loadR =
     (if App_syncButton st = Enabled
         \<or> Sidebar_syncButton (authenticated st) (ollamaStatus st) (syncing st) = Enabled
      then handleSync st syncR loadR else (st, []))"

definition requests_of :: "effect list \<Rightarrow> request list" where
  "requests_of eff = concat (map (\<lambda>e. case e of Request r \<Rightarrow> [r] | _ \<Rightarrow> []) eff)"

section \<open>components/Debugdashboard.js: the status cards\<close>

text \<open>The three cards read \<open>debugInfo.status?.authenticated\<close>,
  \<open>debugInfo.status?.ollama_status\<close> and \<open>debugInfo.status?.last_sync\<close>: two lights, and
  the date shown (\<open>None\<close> for the text Never).\<close>

record statusCards =
  authCard :: bool
  ollamaCard :: bool
  lastSyncCard :: "jsval option"

definition DebugDashboard_statusCards :: "jsval \<Rightarrow> statusCards" where
  "DebugDashboard_statusCards status =
     \<lparr>authCard = truthy (optmember status ''authenticated''),
      ollamaCard = truthy (optmember status ''ollama_status''),
      lastSyncCard = (if truthy (optmember status ''last_sync'')
                      then Some (optmember status ''last_sync'') else None)\<rparr>"

section \<open>The email modal (the second module of App.js)\<close>

text \<open>
  The state of \<open>EmailModal\<close>: the \<open>email\<close> prop and the six \<open>useState\<close> cells. The
  details are an email object and the reply is a string, as the render needs them to be.
\<close>

datatype tab = Summary | FullEmail | Reply

record EmailModal_state =
  email :: obj
  emailDetails :: obj
  replyContent :: ustring
  sending :: bool
  regenerating :: bool
  activeTab :: tab
  modal_loading :: bool

definition loadEmailDetails ::
    "EmailModal_state \<Rightarrow> obj outcome \<Rightarrow> EmailModal_state \<times> effect list" where
  "loadEmailDetails st r =
     (case r of
        Rejected err \<Rightarrow>
          (st\<lparr>modal_loading := False\<rparr>,
           [Request (getEmailDetails (getv (email st) ''id'')),
            Toast (ToastError (JStr (ustr ''Failed to load email details'')))])
      | Resolved details \<Rightarrow>
          (st\<lparr>emailDetails := details, modal_loading := False\<rparr>,
           [Request (getEmailDetails (getv (email st) ''id''))]))"

text \<open>\<open>handleSendReply\<close>. The call is \<open>sendReply(email.id, { content: replyContent })\<close>:
  the second argument is the object literal, which \<open>sendReply\<close> of api.js receives as its
  \<open>content\<close>.\<close>

definition handleSendReply ::
    "EmailModal_state \<Rightarrow> jsval outcome \<Rightarrow> EmailModal_state \<times> effect list" where
  "handleSendReply st r =
     (if trim (replyContent st) = [] then
        (st, [Toast (ToastError (JStr (ustr ''Please write a reply before sending'')))])
      else
        (case r of
           Resolved d \<Rightarrow>
             (let updatedEmail = spread_with (emailDetails st) ''has_reply'' (JBool True) in
              (st\<lparr>emailDetails := updatedEmail, sending := False\<rparr>,
               [Request (sendReply (getv (email st) ''id'')
                           (JObj [(''content'', JStr (replyContent st))])),
                Toast (ToastSuccess (JStr (ustr ''Reply sent successfully!''))),
                OnUpdate updatedEmail,
                OnCloseAfter 1000]))
         | Rejected err \<Rightarrow>
             (st\<lparr>sending := False\<rparr>,
              [Request (sendReply (getv (email st) ''id'')
                          (JObj [(''content'', JStr (replyContent st))])),
               Toast (ToastErrorConcat (ustr ''Failed to send reply: '')
                        (js_or (optmember (optmember (getv err ''response'') ''data'') ''error'')
                               (getv err ''message'')))])))"

text \<open>\<open>handleRegenerateReply\<close>: the answer's \<open>draft_reply\<close> goes into the text area.\<close>

definition handleRegenerateReply ::
    "EmailModal_state \<Rightarrow> ustring outcome \<Rightarrow> EmailModal_state \<times> effect list" where
  "handleRegenerateReply st r =
     (case r of
        Resolved draft \<Rightarrow>
          (st\<lparr>replyContent := draft, regenerating := False\<rparr>,
           [Request (regenerateReply (getv (email st) ''id'')),
            Toast (ToastSuccess (JStr (ustr ''New reply generated!'')))])
      | Rejected err \<Rightarrow>
          (st\<lparr>regenerating := False\<rparr>,
           [Request (regenerateReply (getv (email st) ''id'')),
            Toast (ToastError (JStr (ustr ''Failed to generate new reply'')))]))"

text \<open>The controls the modal renders enabled. The header is always there; the content
  area is a spinner while loading; the reply tab shows the Already Replied panel, and no
  control, when \<open>emailDetails.has_reply\<close> is truthy.\<close>

datatype control =
    Backdrop
  | CloseButton
  | TabButton tab
  | RegenerateButton
  | ReplyTextarea
  | CancelButton
  | SendButton

definition EmailModal_controls :: "EmailModal_state \<Rightarrow> control list" where
  "EmailModal_controls st =
     [Backdrop, CloseButton, TabButton Summary, TabButton FullEmail, TabButton Reply] @
     (if modal_loading st then []
      else if activeTab st = Reply then
        (if truthy (getv (emailDetails st) ''has_reply'') then []
         else
           (if regenerating st then [] else [RegenerateButton]) @
           [ReplyTextarea, CancelButton] @
           (if sending st \<or> trim (replyContent st) = [] then [] else [SendButton]))
      else [])"

text \<open>What the user can do to the modal, with the backend's answer where the handler
  awaits one. An event on a control that is not rendered enabled does nothing.\<close>

datatype event =
    ClickBackdrop
  | ClickClose
  | ClickTab tab
  | ClickRegenerate "ustring outcome"
  | TypeReply ustring
  | ClickCancel
  | ClickSend "jsval outcome"

fun control_of :: "event \<Rightarrow> control" where
  "control_of ClickBackdrop = Backdrop"
| "control_of ClickClose = CloseButton"
| "control_of (ClickTab t) = TabButton t"
| "control_of (ClickRegenerate r) = RegenerateButton"
| "control_of (TypeReply s) = ReplyTextarea"
| "control_of ClickCancel = CancelButton"
| "control_of (ClickSend r) = SendButton"

fun EmailModal_handler :: "EmailModal_state \<Rightarrow> event \<Rightarrow> EmailModal_state \<times> effect list" where
  "EmailModal_handler st ClickBackdrop = (st, [OnClose])"
| "EmailModal_handler st ClickClose = (st, [OnClose])"
| "EmailModal_handler st (ClickTab t) = (st\<lparr>activeTab := t\<rparr>, [])"
| "EmailModal_handler st (ClickRegenerate r) = handleRegenerateReply st r"
| "EmailModal_handler st (TypeReply s) = (st\<lparr>replyContent := s\<rparr>, [])"
| "EmailModal_handler st ClickCancel = (st, [OnClose])"
| "EmailModal_handler st (ClickSend r) = handleSendReply st r"

definition EmailModal_event :: "EmailModal_state \<Rightarrow> event \<Rightarrow> EmailModal_state \<times> effect list" where
  "EmailModal_event st ev =
     (if control_of ev \<in> set (EmailModal_controls st) then EmailModal_handler st ev
      else (st, []))"

text \<open>The summary tab. For a truthy summary each line of \<open>summary.split('\n')\<close> gives
  one child: nothing for a line that trims to \<open>''\<close>, else a paragraph made of a bullet and
  \<open>line.replace(bullet, '').trim()\<close>. A falsy summary gives the text No summary available.\<close>

datatype summary_view = NoSummary | SummaryLines "ustring option list"

definition summaryTab :: "jsval \<Rightarrow> js_error + summary_view" where
  "summaryTab summary =
     (if \<not> truthy summary then Inr NoSummary
      else (case summary of
              JStr s \<Rightarrow>
                Inr (SummaryLines
                  (map (\<lambda>line. if trim line \<noteq> [] then Some (trim (replace_first BULLET line))
                                else None)
                     (split_on LF s)))
            | _ \<Rightarrow> Inl TypeError))"

text \<open>The bullet paragraphs on the screen, top to bottom.\<close>

fun bullets :: "summary_view \<Rightarrow> ustring list" where
  "bullets NoSummary = []"
| "bullets (SummaryLines ps) = concat (map (\<lambda>p. case p of None \<Rightarrow> [] | Some t \<Rightarrow> [t]) ps)"

section \<open>components/Dashboard.js: the order of the cards\<close>

text \<open>
  \<open>Array.prototype.sort\<close> with a comparator: a comparator result that is \<open>NaN\<close> counts as
  0, an exception of the comparator ends the sort. For a consistent comparator ECMAScript
  fixes the result, the stable sorted arrangement, and the insertion below computes it;
  for any other comparator the order is the engine's choice and this is one of them.
\<close>

definition cmp_value :: "int option \<Rightarrow> int" where
  "cmp_value v = (case v of None \<Rightarrow> 0 | Some n \<Rightarrow> n)"

fun insert_by :: "('a \<Rightarrow> 'a \<Rightarrow> js_error + int option) \<Rightarrow> 'a \<Rightarrow> 'a list \<Rightarrow> js_error + 'a list" where
  "insert_by cmp x [] = Inr [x]"
| "insert_by cmp x (y # ys) =
     (case cmp x y of
        Inl e \<Rightarrow> Inl e
      | Inr v \<Rightarrow>
          if cmp_value v \<le> 0 then Inr (x # y # ys)
          else (case insert_by cmp x ys of Inl e \<Rightarrow> Inl e | Inr zs \<Rightarrow> Inr (y # zs)))"

fun js_sort :: "('a \<Rightarrow> 'a \<Rightarrow> js_error + int option) \<Rightarrow> 'a list \<Rightarrow> js_error + 'a list" where
  "js_sort cmp [] = Inr []"
| "js_sort cmp (x # xs) =
     (case js_sort cmp xs of Inl e \<Rightarrow> Inl e | Inr ys \<Rightarrow> insert_by cmp x ys)"

text \<open>\<open>priorityOrder[p]\<close> as a number: 3, 2, 1 for the three keys, \<open>NaN\<close> for anything
  else (\<open>undefined\<close>, or an inherited member of the object literal).\<close>

definition priorityOrder :: "jsval \<Rightarrow> int option" where
  "priorityOrder p =
     (case p of
        JStr s \<Rightarrow>
          if s = ustr ''high'' then Some 3
          else if s = ustr ''medium'' then Some 2
          else if s = ustr ''normal'' then Some 1
          else None
      | _ \<Rightarrow> None)"

text \<open>The comparator of \<open>sortedEmails\<close>. \<open>dateValue v\<close> is the time value of
  \<open>new Date(v)\<close> in milliseconds, \<open>None\<close> for an invalid date; \<open>localeCompare\<close> is the
  engine's collation, applied to a sender that is a string (a TypeError otherwise).\<close>

definition compareEmails ::
    "(jsval \<Rightarrow> int option) \<Rightarrow> (ustring \<Rightarrow> jsval \<Rightarrow> int) \<Rightarrow> string \<Rightarrow> obj \<Rightarrow> obj
       \<Rightarrow> js_error + int option" where
  "compareEmails dateValue localeCompare sortBy a b =
     (if sortBy = ''timestamp'' then
        Inr (num_sub (dateValue (getv b ''timestamp'')) (dateValue (getv a ''timestamp'')))
      else if sortBy = ''priority'' then
        Inr (num_sub (priorityOrder (getv b ''priority'')) (priorityOrder (getv a ''priority'')))
      else if sortBy = ''sender'' then
        (case getv a ''sender'' of
           JStr s \<Rightarrow> Inr (Some (localeCompare s (getv b ''sender'')))
         | _ \<Rightarrow> Inl TypeError)
      else Inr (Some 0))"

definition sortedEmails ::
    "(jsval \<Rightarrow> int option) \<Rightarrow> (ustring \<Rightarrow> jsval \<Rightarrow> int) \<Rightarrow> string \<Rightarrow> obj list
       \<Rightarrow> js_error + obj list" where
  "sortedEmails dateValue localeCompare sortBy es =
     js_sort (compareEmails dateValue localeCompare sortBy) es"

text \<open>The initial value of the \<open>sortBy\<close> cell: by date.\<close>

definition sortBy_init :: string where
  "sortBy_init = ''timestamp''"

section \<open>The backend operation behind the Regenerate button\<close>

text \<open>
  Modelled from the spec: the Message record of the core (section 3), with the fields the
  operation reads and writes, and the failures of section 6. The backend that holds them
  (Flask, SQLite) is not among the sources.
\<close>

datatype relevance = RelUnknown | RelRelevant | RelFiltered

datatype core_error = AlreadyReplied | NotRelevant | InferenceUnavailable

record message =
  msg_id :: ustring
  is_relevant :: relevance
  summary :: "ustring option"
  draft_reply :: "ustring option"
  has_reply :: bool

text \<open>
  Modelled from the spec: the core operation \<open>regenerate_draft\<close>, which answers the
  request of \<open>regenerateReply\<close>; its code is missing with the backend. Following sections
  4.5, 6 and 8 it fails with AlreadyReplied if \<open>has_reply\<close> is true, with NotRelevant if
  the message was filtered, with InferenceUnavailable if the health check fails, and
  otherwise yields the new draft and stores it in \<open>draft_reply\<close>. The result is the
  answer and the record afterwards.
\<close>

definition regenerate_draft ::
    "message \<Rightarrow> bool \<Rightarrow> ustring \<Rightarrow> (core_error + ustring) \<times> message" where
  "regenerate_draft m inference_available new_draft =
     (if has_reply m then (Inl AlreadyReplied, m)
      else if is_relevant m = RelFiltered then (Inl NotRelevant, m)
      else if \<not> inference_available then (Inl InferenceUnavailable, m)
      else (Inr new_draft, m\<lparr>draft_reply := Some new_draft\<rparr>))"

section \<open>Properties: reading and spreading objects\<close>

lemma getv_spread_same: "getv (spread_with fs k v) k = v"
  by (simp add: getv_def spread_with_def update_conv')

lemma getv_spread_other: "k' \<noteq> k \<Longrightarrow> getv (spread_with fs k v) k' = getv fs k'"
  by (simp add: getv_def spread_with_def update_conv')

lemma count_or_zero_Some: "count_or_zero (Some n) = n"
  by simp

section \<open>Properties: the counts of the Sidebar\<close>

text \<open>
  Claim C10. For every list of emails in the application state, the counts the Sidebar
  shows partition the list: Needs Reply plus Replied is All Emails, which is the length of
  the list, and an email counts as replied exactly when its \<open>has_reply\<close> is truthy.
\<close>

theorem sidebar_counts_partition:
  "snd (snd (menuItems (Some (App_emailCount st)) ! 1))
     + snd (snd (menuItems (Some (App_emailCount st)) ! 2))
     = snd (snd (menuItems (Some (App_emailCount st)) ! 0))
   \<and> snd (snd (menuItems (Some (App_emailCount st)) ! 0)) = length (emails st)
   \<and> snd (snd (menuItems (Some (App_emailCount st)) ! 2))
       = length (filter (\<lambda>e. truthy (getv e ''has_reply'')) (emails st))
   \<and> snd (snd (menuItems (Some (App_emailCount st)) ! 1))
       = length (filter (\<lambda>e. \<not> truthy (getv e ''has_reply'')) (emails st))"
proof -
  have "length (filter (\<lambda>e. truthy (getv e ''has_reply'')) (emails st))
        + length (filter (\<lambda>e. \<not> truthy (getv e ''has_reply'')) (emails st))
        = length (emails st)"
    by (rule sum_length_filter_compl)
  then show ?thesis
    by (simp add: menuItems_def App_emailCount_def count_or_zero_Some del: count_or_zero.simps)
qed

text \<open>Three emails: one replied (\<open>true\<close>), one with the flag 0, one without the key.\<close>

theorem sidebar_counts_partition_witness:
  "menuItems (Some (App_emailCount (App_init\<lparr>emails :=
      [[(''id'', JNum 1), (''has_reply'', JBool True)],
       [(''id'', JNum 2), (''has_reply'', JNum 0)],
       [(''id'', JNum 3)]]\<rparr>)))
   = [(''all'', ''All Emails'', 3), (''unreplied'', ''Needs Reply'', 2), (''replied'', ''Replied'', 1)]"
  using sidebar_counts_partition [of "App_init\<lparr>emails :=
      [[(''id'', JNum 1), (''has_reply'', JBool True)],
       [(''id'', JNum 2), (''has_reply'', JNum 0)],
       [(''id'', JNum 3)]]\<rparr>"]
  by (simp add: menuItems_def App_emailCount_def getv_def)

section \<open>Properties: the guard of the sync trigger\<close>

text \<open>
  Claim C4. Whenever the inference backend is reported unavailable (the \<open>ollamaStatus\<close>
  cell is falsy) or authentication is absent, no sync run is started: \<open>handleSync\<close> sends
  no request at all and leaves the state as it was, and neither Sync button is enabled, so
  a click on them does nothing.
\<close>

theorem sync_short_circuit:
  assumes "\<not> truthy (authenticated st) \<or> \<not> truthy (ollamaStatus st)"
  shows "requests_of (snd (handleSync st syncR loadR)) = []
         \<and> fst (handleSync st syncR loadR) = st
         \<and> App_syncButton st \<noteq> Enabled
         \<and> Sidebar_syncButton (authenticated st) (ollamaStatus st) (syncing st) \<noteq> Enabled
         \<and> App_clickSync st syncR loadR = (st, [])"
  using assms
  by (auto simp: handleSync_def requests_of_def App_syncButton_def Sidebar_syncButton_def
      App_clickSync_def)

theorem sync_short_circuit_witness:
  "\<not> truthy (authenticated App_init)
   \<and> requests_of (snd (handleSync App_init (Resolved JNull) (Resolved None))) = []
   \<and> fst (handleSync App_init (Resolved JNull) (Resolved None)) = App_init
   \<and> App_syncButton App_init \<noteq> Enabled
   \<and> Sidebar_syncButton (authenticated App_init) (ollamaStatus App_init) (syncing App_init)
       \<noteq> Enabled
   \<and> App_clickSync App_init (Resolved JNull) (Resolved None) = (App_init, [])"
proof -
  have h: "\<not> truthy (authenticated App_init) \<or> \<not> truthy (ollamaStatus App_init)"
    by (simp add: App_init_def)
  show ?thesis
    using sync_short_circuit [OF h, of "Resolved JNull" "Resolved None"]
    by (simp add: App_init_def)
qed

text \<open>The guard is the only thing in the way: with both cells truthy the first request
  of \<open>handleSync\<close> is the sync POST.\<close>

lemma handleSync_sends_when_ready:
  "truthy (authenticated st) \<Longrightarrow> truthy (ollamaStatus st) \<Longrightarrow>
   \<exists>rs. requests_of (snd (handleSync st syncR loadR)) = syncEmails # rs"
  by (auto simp: handleSync_def requests_of_def loadEmails_def
      split: outcome.splits sum.splits prod.splits)

section \<open>Properties: the status fields the front end reads\<close>

lemma getv_update_other: "k' \<noteq> k \<Longrightarrow> getv (AList.update k v fs) k' = getv fs k'"
  by (simp add: getv_def update_conv')

text \<open>
  Claim C6, as stated: \<open>get_status\<close> returns exactly the fields \<open>authenticated\<close>,
  \<open>inference_available\<close> and \<open>last_sync\<close>, and every consumer reads the
  inference-availability flag under that field name. The consumers do not: on a status of
  exactly that shape, with \<open>inference_available\<close> true, \<open>checkStatus\<close> leaves the
  availability cell \<open>undefined\<close> and the debug card stays red.
\<close>

theorem status_flag_contract_name_counterexample:
  "ollamaStatus (fst (checkStatus App_init (Resolved (JObj
      [(''authenticated'', JBool True), (''inference_available'', JBool True),
       (''last_sync'', JNull)])))) = JUndefined
   \<and> \<not> ollamaCard (DebugDashboard_statusCards (JObj
      [(''authenticated'', JBool True), (''inference_available'', JBool True),
       (''last_sync'', JNull)]))"
  by (simp add: checkStatus_def DebugDashboard_statusCards_def getv_def)

text \<open>
  Claim C6, amended: \<open>getStatus\<close> hands the backend's status body to its consumers as it
  is, and they read the fields \<open>authenticated\<close>, \<open>ollama_status\<close> and \<open>last_sync\<close>:
  \<open>checkStatus\<close> stores \<open>status.authenticated\<close> and \<open>status.ollama_status\<close>, the debug
  cards show those two and \<open>status.last_sync\<close>, and no other field of the status (such as
  \<open>inference_available\<close>) changes what \<open>checkStatus\<close> does.
\<close>

theorem status_consumers_read_ollama_status:
  "checkStatus st (Resolved (JObj fs))
     = (st\<lparr>authenticated := getv fs ''authenticated'', ollamaStatus := getv fs ''ollama_status''\<rparr>,
        [Request getStatus])
   \<and> DebugDashboard_statusCards (JObj fs)
     = \<lparr>authCard = truthy (getv fs ''authenticated''),
        ollamaCard = truthy (getv fs ''ollama_status''),
        lastSyncCard = (if truthy (getv fs ''last_sync'') then Some (getv fs ''last_sync'')
                        else None)\<rparr>
   \<and> (k \<noteq> ''authenticated'' \<and> k \<noteq> ''ollama_status'' \<longrightarrow>
        checkStatus st (Resolved (JObj (AList.update k v fs)))
          = checkStatus st (Resolved (JObj fs)))"
  by (auto simp: checkStatus_def DebugDashboard_statusCards_def getv_update_other)

theorem status_consumers_read_ollama_status_witness:
  "checkStatus App_init (Resolved (JObj
      [(''authenticated'', JBool True), (''ollama_status'', JBool True), (''last_sync'', JNull)]))
     = (App_init\<lparr>authenticated := JBool True, ollamaStatus := JBool True\<rparr>, [Request getStatus])
   \<and> DebugDashboard_statusCards (JObj
      [(''authenticated'', JBool True), (''ollama_status'', JBool True), (''last_sync'', JNull)])
     = \<lparr>authCard = True, ollamaCard = True, lastSyncCard = None\<rparr>
   \<and> ''inference_available'' \<noteq> ''authenticated'' \<and> ''inference_available'' \<noteq> ''ollama_status''
   \<and> checkStatus App_init (Resolved (JObj (AList.update ''inference_available'' (JBool False)
      [(''authenticated'', JBool True), (''ollama_status'', JBool True), (''last_sync'', JNull)])))
     = checkStatus App_init (Resolved (JObj
      [(''authenticated'', JBool True), (''ollama_status'', JBool True), (''last_sync'', JNull)]))"
  using status_consumers_read_ollama_status [of App_init
      "[(''authenticated'', JBool True), (''ollama_status'', JBool True), (''last_sync'', JNull)]"
      "''inference_available''" "JBool False"]
  by (simp add: getv_def)

section \<open>Properties: what Send Reply transmits\<close>

text \<open>For every reply that is not blank, whatever the backend answers, the one request
  of \<open>handleSendReply\<close> carries the text one object deeper than \<open>content\<close>.\<close>

lemma handleSendReply_request:
  "trim (replyContent st) \<noteq> [] \<Longrightarrow>
   requests_of (snd (handleSendReply st r))
     = [POST (ApiEmailReply (getv (email st) ''id''))
          (Some (JObj [(''content'', JObj [(''content'', JStr (replyContent st))])]))]"
  by (cases r) (simp_all add: handleSendReply_def sendReply_def requests_of_def Let_def)

text \<open>
  Claim C1. The send-reply operation should transmit the user's text as the \<open>content\<close>
  field of the request body. For the email \<open>m1\<close> and the reply \<open>Approved.\<close> the body
  sent is \<open>{content: {content: "Approved."}}\<close>: the \<open>content\<close> field is an object that
  wraps the text.
\<close>

theorem sendReply_content_is_wrapped_twice:
  "requests_of (snd (handleSendReply
      \<lparr>email = [(''id'', JStr (ustr ''m1''))], emailDetails = [(''id'', JStr (ustr ''m1''))],
       replyContent = ustr ''Approved.'', sending = False, regenerating = False,
       activeTab = Reply, modal_loading = False\<rparr> (Resolved JNull)))
   = [POST (ApiEmailReply (JStr (ustr ''m1'')))
        (Some (JObj [(''content'', JObj [(''content'', JStr (ustr ''Approved.''))])]))]"
  by (simp add: handleSendReply_def sendReply_def requests_of_def getv_def trim_def trimStart_def
      trimEnd_def isWhiteSpace_def ustr_def spread_with_def Let_def)

section \<open>Properties: the initials of a sender\<close>

lemma split_on_not_Nil: "split_on sep s \<noteq> []"
  by (induction s) (auto split: list.splits)

text \<open>Two words and one word give the initials meant.\<close>

lemma getSenderInitials_two_words:
  "getSenderInitials toUpperCase (Some (ustr ''Al Bo'')) e = Inr (toUpperCase (ustr ''AB''))"
  by (simp add: getSenderInitials_def ustr_def SPACE_def)

lemma getSenderInitials_one_word:
  "getSenderInitials toUpperCase (Some (ustr ''Al'')) e = Inr (toUpperCase (ustr ''A''))"
  by (simp add: getSenderInitials_def ustr_def SPACE_def)

lemma getSenderInitials_email_only:
  "getSenderInitials toUpperCase None (Some (ustr ''al@x.org'')) = Inr (toUpperCase (ustr ''a''))"
  by (simp add: getSenderInitials_def ustr_def)

lemma getSenderInitials_nothing:
  "getSenderInitials toUpperCase None None = Inr (ustr ''?'')"
  by (simp add: getSenderInitials_def)

text \<open>A name that ends in a space has an empty second part, and \<open>undefined\<close> is spelt
  out in the result.\<close>

lemma getSenderInitials_trailing_space:
  "getSenderInitials toUpperCase (Some (ustr ''Al '')) e = Inr (toUpperCase (ustr ''Aundefined''))"
  by (simp add: getSenderInitials_def ustr_def SPACE_def)

text \<open>
  Claim C9. For a name or an email that is a non-empty string \<open>getSenderInitials\<close>
  should return a non-empty upper-case string. For the name that is one space both parts
  are empty, the sum of their first characters is \<open>NaN\<close>, and the call of
  \<open>toUpperCase\<close> throws a TypeError: nothing is returned.
\<close>

theorem getSenderInitials_blank_name_throws:
  "getSenderInitials toUpperCase (Some (ustr '' '')) e = Inl TypeError"
  by (simp add: getSenderInitials_def ustr_def SPACE_def)

section \<open>Properties: the effect of Send Reply on the record\<close>

lemma handleSendReply_Resolved:
  "trim (replyContent st) \<noteq> [] \<Longrightarrow>
   handleSendReply st (Resolved d) =
     (st\<lparr>emailDetails := spread_with (emailDetails st) ''has_reply'' (JBool True),
         sending := False\<rparr>,
      [Request (sendReply (getv (email st) ''id'') (JObj [(''content'', JStr (replyContent st))])),
       Toast (ToastSuccess (JStr (ustr ''Reply sent successfully!''))),
       OnUpdate (spread_with (emailDetails st) ''has_reply'' (JBool True)),
       OnCloseAfter 1000])"
  by (simp add: handleSendReply_def Let_def)

lemma handleSendReply_Rejected:
  "emailDetails (fst (handleSendReply st (Rejected err))) = emailDetails st
   \<and> email (fst (handleSendReply st (Rejected err))) = email st
   \<and> replyContent (fst (handleSendReply st (Rejected err))) = replyContent st
   \<and> OnUpdate u \<notin> set (snd (handleSendReply st (Rejected err)))"
  by (simp add: handleSendReply_def)

lemma handleEmailUpdate_nth:
  "i < length (emails app) \<Longrightarrow>
   emails (handleEmailUpdate app u) ! i =
     (if strict_eq (getv (emails app ! i) ''id'') (getv u ''id'') then u else emails app ! i)"
  by (simp add: handleEmailUpdate_def)

text \<open>
  Claim C3. A successful send sets \<open>has_reply\<close> of the record to \<open>true\<close> and leaves
  every other field of it as it was, and hands that record to the App; a failed send
  changes no field of the record, so \<open>has_reply\<close> stays falsy, and the App is not called.
  In the App's list the update touches the entries with the record's id only, replacing
  them by the record.
\<close>

theorem send_reply_frame:
  assumes "trim (replyContent st) \<noteq> []"
  shows "getv (emailDetails (fst (handleSendReply st (Resolved d)))) ''has_reply'' = JBool True
     \<and> (\<forall>k. k \<noteq> ''has_reply'' \<longrightarrow>
           getv (emailDetails (fst (handleSendReply st (Resolved d)))) k = getv (emailDetails st) k)
     \<and> OnUpdate (emailDetails (fst (handleSendReply st (Resolved d))))
           \<in> set (snd (handleSendReply st (Resolved d)))
     \<and> emailDetails (fst (handleSendReply st (Rejected err))) = emailDetails st
     \<and> (\<forall>u. OnUpdate u \<notin> set (snd (handleSendReply st (Rejected err))))
     \<and> (\<not> truthy (getv (emailDetails st) ''has_reply'') \<longrightarrow>
           \<not> truthy (getv (emailDetails (fst (handleSendReply st (Rejected err)))) ''has_reply''))
     \<and> length (emails (handleEmailUpdate app u)) = length (emails app)
     \<and> (\<forall>i < length (emails app).
           emails (handleEmailUpdate app u) ! i =
             (if strict_eq (getv (emails app ! i) ''id'') (getv u ''id'') then u
              else emails app ! i))"
proof -
  have ok: "getv (emailDetails (fst (handleSendReply st (Resolved d)))) ''has_reply'' = JBool True"
    using assms by (simp add: handleSendReply_Resolved getv_spread_same)
  have frame: "\<forall>k. k \<noteq> ''has_reply'' \<longrightarrow>
           getv (emailDetails (fst (handleSendReply st (Resolved d)))) k = getv (emailDetails st) k"
    using assms by (simp add: handleSendReply_Resolved getv_spread_other)
  have upd: "OnUpdate (emailDetails (fst (handleSendReply st (Resolved d))))
           \<in> set (snd (handleSendReply st (Resolved d)))"
    using assms by (simp add: handleSendReply_Resolved)
  have rej: "emailDetails (fst (handleSendReply st (Rejected err))) = emailDetails st"
    by (simp add: handleSendReply_Rejected)
  have noupd: "\<forall>u. OnUpdate u \<notin> set (snd (handleSendReply st (Rejected err)))"
    by (simp add: handleSendReply_Rejected)
  have len: "length (emails (handleEmailUpdate app u)) = length (emails app)"
    by (simp add: handleEmailUpdate_def)
  have nth: "\<forall>i < length (emails app).
           emails (handleEmailUpdate app u) ! i =
             (if strict_eq (getv (emails app ! i) ''id'') (getv u ''id'') then u
              else emails app ! i)"
    by (simp add: handleEmailUpdate_nth)
  from ok frame upd rej noupd len nth show ?thesis
    by simp
qed

theorem send_reply_frame_witness:
  "trim (ustr ''Approved.'') \<noteq> []
   \<and> emailDetails (fst (handleSendReply
        \<lparr>email = [(''id'', JStr (ustr ''m1'')), (''subject'', JStr (ustr ''Re: Budget'')),
                  (''has_reply'', JBool False)],
         emailDetails = [(''id'', JStr (ustr ''m1'')), (''subject'', JStr (ustr ''Re: Budget'')),
                  (''has_reply'', JBool False)],
         replyContent = ustr ''Approved.'', sending = False, regenerating = False,
         activeTab = Reply, modal_loading = False\<rparr> (Resolved JNull)))
     = [(''id'', JStr (ustr ''m1'')), (''subject'', JStr (ustr ''Re: Budget'')),
        (''has_reply'', JBool True)]
   \<and> emailDetails (fst (handleSendReply
        \<lparr>email = [(''id'', JStr (ustr ''m1'')), (''subject'', JStr (ustr ''Re: Budget'')),
                  (''has_reply'', JBool False)],
         emailDetails = [(''id'', JStr (ustr ''m1'')), (''subject'', JStr (ustr ''Re: Budget'')),
                  (''has_reply'', JBool False)],
         replyContent = ustr ''Approved.'', sending = False, regenerating = False,
         activeTab = Reply, modal_loading = False\<rparr> (Rejected [])))
     = [(''id'', JStr (ustr ''m1'')), (''subject'', JStr (ustr ''Re: Budget'')),
        (''has_reply'', JBool False)]
   \<and> emails (handleEmailUpdate
        (App_init\<lparr>emails := [[(''id'', JStr (ustr ''m0''))],
                             [(''id'', JStr (ustr ''m1'')), (''subject'', JStr (ustr ''Re: Budget'')),
                              (''has_reply'', JBool False)]]\<rparr>)
        [(''id'', JStr (ustr ''m1'')), (''subject'', JStr (ustr ''Re: Budget'')),
         (''has_reply'', JBool True)])
     = [[(''id'', JStr (ustr ''m0''))],
        [(''id'', JStr (ustr ''m1'')), (''subject'', JStr (ustr ''Re: Budget'')),
         (''has_reply'', JBool True)]]"
proof -
  have h: "trim (replyContent
        \<lparr>email = [(''id'', JStr (ustr ''m1'')), (''subject'', JStr (ustr ''Re: Budget'')),
                  (''has_reply'', JBool False)],
         emailDetails = [(''id'', JStr (ustr ''m1'')), (''subject'', JStr (ustr ''Re: Budget'')),
                  (''has_reply'', JBool False)],
         replyContent = ustr ''Approved.'', sending = False, regenerating = False,
         activeTab = Reply, modal_loading = False\<rparr>) \<noteq> []"
    by (simp add: trim_def trimStart_def trimEnd_def isWhiteSpace_def ustr_def)
  show ?thesis
    using send_reply_frame [OF h, of JNull "[]"
        "App_init\<lparr>emails := [[(''id'', JStr (ustr ''m0''))],
                             [(''id'', JStr (ustr ''m1'')), (''subject'', JStr (ustr ''Re: Budget'')),
                              (''has_reply'', JBool False)]]\<rparr>"
        "[(''id'', JStr (ustr ''m1'')), (''subject'', JStr (ustr ''Re: Budget'')),
         (''has_reply'', JBool True)]"]
    by (simp add: handleSendReply_def handleEmailUpdate_def spread_with_def getv_def Let_def
        trim_def trimStart_def trimEnd_def isWhiteSpace_def ustr_def)
qed

section \<open>Properties: no regeneration after a reply\<close>

lemma controls_when_replied:
  "truthy (getv (emailDetails st) ''has_reply'') \<Longrightarrow>
   set (EmailModal_controls st)
     = {Backdrop, CloseButton, TabButton Summary, TabButton FullEmail, TabButton Reply}"
  by (auto simp: EmailModal_controls_def)

lemma no_request_when_replied:
  "truthy (getv (emailDetails st) ''has_reply'') \<Longrightarrow> requests_of (snd (EmailModal_event st ev)) = []"
  by (cases ev) (simp_all add: EmailModal_event_def controls_when_replied requests_of_def)

lemma handleRegenerateReply_frame:
  "emailDetails (fst (handleRegenerateReply st r)) = emailDetails st
   \<and> email (fst (handleRegenerateReply st r)) = email st"
  by (cases r) (simp_all add: handleRegenerateReply_def)

text \<open>
  Claim C2. On a message whose \<open>has_reply\<close> is true \<open>regenerate_draft\<close> fails with
  AlreadyReplied and leaves the record, \<open>draft_reply\<close> included, as it was. In the modal
  regeneration is neither offered nor performed on such a message: the Regenerate button
  is not rendered, a click on it does nothing, and no event sends a request. Whatever the
  state, \<open>handleRegenerateReply\<close> writes the new draft into the text area only and never
  into the record.
\<close>

theorem regenerate_guarded_when_replied:
  "(has_reply m \<longrightarrow> regenerate_draft m ok d = (Inl AlreadyReplied, m))
   \<and> (truthy (getv (emailDetails st) ''has_reply'') \<longrightarrow>
        RegenerateButton \<notin> set (EmailModal_controls st)
        \<and> EmailModal_event st (ClickRegenerate r) = (st, [])
        \<and> (\<forall>ev. requests_of (snd (EmailModal_event st ev)) = []))
   \<and> emailDetails (fst (handleRegenerateReply st r)) = emailDetails st
   \<and> email (fst (handleRegenerateReply st r)) = email st"
proof -
  have backend: "has_reply m \<longrightarrow> regenerate_draft m ok d = (Inl AlreadyReplied, m)"
    by (simp add: regenerate_draft_def)
  have offered: "truthy (getv (emailDetails st) ''has_reply'') \<longrightarrow>
        RegenerateButton \<notin> set (EmailModal_controls st)
        \<and> EmailModal_event st (ClickRegenerate r) = (st, [])"
    by (simp add: controls_when_replied EmailModal_event_def)
  have performed: "truthy (getv (emailDetails st) ''has_reply'') \<longrightarrow>
        (\<forall>ev. requests_of (snd (EmailModal_event st ev)) = [])"
    by (simp add: no_request_when_replied)
  from backend offered performed handleRegenerateReply_frame [of st r] show ?thesis
    by blast
qed

theorem regenerate_guarded_when_replied_witness:
  "has_reply \<lparr>msg_id = ustr ''m1'', is_relevant = RelRelevant, summary = None,
       draft_reply = Some (ustr ''Sure.''), has_reply = True\<rparr>
   \<and> regenerate_draft \<lparr>msg_id = ustr ''m1'', is_relevant = RelRelevant, summary = None,
       draft_reply = Some (ustr ''Sure.''), has_reply = True\<rparr> True (ustr ''Approved.'')
     = (Inl AlreadyReplied, \<lparr>msg_id = ustr ''m1'', is_relevant = RelRelevant, summary = None,
       draft_reply = Some (ustr ''Sure.''), has_reply = True\<rparr>)
   \<and> truthy (getv [(''id'', JStr (ustr ''m1'')), (''has_reply'', JBool True)] ''has_reply'')
   \<and> RegenerateButton \<notin> set (EmailModal_controls
        \<lparr>email = [(''id'', JStr (ustr ''m1'')), (''has_reply'', JBool True)],
         emailDetails = [(''id'', JStr (ustr ''m1'')), (''has_reply'', JBool True)],
         replyContent = ustr ''Approved.'', sending = False, regenerating = False,
         activeTab = Reply, modal_loading = False\<rparr>)
   \<and> requests_of (snd (EmailModal_event
        \<lparr>email = [(''id'', JStr (ustr ''m1'')), (''has_reply'', JBool True)],
         emailDetails = [(''id'', JStr (ustr ''m1'')), (''has_reply'', JBool True)],
         replyContent = ustr ''Approved.'', sending = False, regenerating = False,
         activeTab = Reply, modal_loading = False\<rparr>
        (ClickRegenerate (Resolved (ustr ''Again.''))))) = []"
  using regenerate_guarded_when_replied [of
      "\<lparr>msg_id = ustr ''m1'', is_relevant = RelRelevant, summary = None,
       draft_reply = Some (ustr ''Sure.''), has_reply = True\<rparr>" True "ustr ''Approved.''"
      "\<lparr>email = [(''id'', JStr (ustr ''m1'')), (''has_reply'', JBool True)],
         emailDetails = [(''id'', JStr (ustr ''m1'')), (''has_reply'', JBool True)],
         replyContent = ustr ''Approved.'', sending = False, regenerating = False,
         activeTab = Reply, modal_loading = False\<rparr>" "Resolved (ustr ''Again.'')"]
  by (simp add: getv_def requests_of_def)

text \<open>The gate is the only thing in the way: on a message not replied to the button
  sends the request.\<close>

lemma regenerate_offered_when_unreplied:
  "\<not> truthy (getv (emailDetails st) ''has_reply'') \<Longrightarrow> \<not> modal_loading st \<Longrightarrow>
   activeTab st = Reply \<Longrightarrow> \<not> regenerating st \<Longrightarrow>
   requests_of (snd (EmailModal_event st (ClickRegenerate r)))
     = [regenerateReply (getv (email st) ''id'')]"
  by (cases r) (simp_all add: EmailModal_event_def EmailModal_controls_def requests_of_def
      handleRegenerateReply_def)

section \<open>Properties: the bullets of the summary tab\<close>

lemma bullet_not_white: "\<not> isWhiteSpace BULLET"
  by (simp add: isWhiteSpace_def BULLET_def)

lemma trimStart_white_prefix:
  "\<forall>c\<in>set ws. isWhiteSpace c \<Longrightarrow> trimStart (ws @ s) = trimStart s"
  by (simp add: trimStart_def dropWhile_append2)

lemma trimEnd_white_suffix:
  assumes "\<forall>c\<in>set ws. isWhiteSpace c"
  shows "trimEnd (s @ ws) = trimEnd s"
proof -
  have "dropWhile isWhiteSpace (rev ws @ rev s) = dropWhile isWhiteSpace (rev s)"
    using assms by (intro dropWhile_append2) simp
  then show ?thesis
    by (simp add: trimEnd_def)
qed

lemma trim_Nil: "trim [] = []"
  by (simp add: trim_def trimStart_def trimEnd_def)

lemma trimStart_white_suffix:
  "\<forall>c\<in>set ws. isWhiteSpace c \<Longrightarrow> trimEnd (trimStart (s @ ws)) = trimEnd (trimStart s)"
proof (cases "\<forall>c\<in>set s. isWhiteSpace c")
  case True
  assume ws: "\<forall>c\<in>set ws. isWhiteSpace c"
  from True ws have "dropWhile isWhiteSpace (s @ ws) = []"
    by auto
  moreover from True have "dropWhile isWhiteSpace s = []"
    by auto
  ultimately show ?thesis
    unfolding trimStart_def by (simp only:)
next
  case False
  assume ws: "\<forall>c\<in>set ws. isWhiteSpace c"
  from False obtain c where "c \<in> set s" "\<not> isWhiteSpace c"
    by blast
  then have "dropWhile isWhiteSpace (s @ ws) = dropWhile isWhiteSpace s @ ws"
    by (rule dropWhile_append1)
  with ws show ?thesis
    by (simp add: trimStart_def trimEnd_white_suffix)
qed

lemma trim_white_around:
  assumes "\<forall>c\<in>set ws1. isWhiteSpace c" and "\<forall>c\<in>set ws2. isWhiteSpace c"
  shows "trim (ws1 @ s @ ws2) = trim s"
proof -
  have "trim (ws1 @ s @ ws2) = trimEnd (trimStart (s @ ws2))"
    using assms(1) by (simp add: trim_def trimStart_white_prefix)
  also have "\<dots> = trim s"
    using assms(2) by (simp add: trim_def trimStart_white_suffix)
  finally show ?thesis .
qed

lemma trim_decompose:
  "\<exists>ws1 ws2. s = ws1 @ trim s @ ws2 \<and> (\<forall>c\<in>set ws1. isWhiteSpace c) \<and> (\<forall>c\<in>set ws2. isWhiteSpace c)"
proof -
  let ?m = "dropWhile isWhiteSpace s"
  let ?ws1 = "takeWhile isWhiteSpace s"
  let ?ws2 = "rev (takeWhile isWhiteSpace (rev ?m))"
  have "rev (takeWhile isWhiteSpace (rev ?m) @ dropWhile isWhiteSpace (rev ?m)) = rev (rev ?m)"
    by (simp only: takeWhile_dropWhile_id)
  then have "rev (dropWhile isWhiteSpace (rev ?m)) @ ?ws2 = ?m"
    by (simp only: rev_append rev_rev_ident)
  then have m: "?m = trim s @ ?ws2"
    by (simp only: trim_def trimEnd_def trimStart_def)
  have "s = ?ws1 @ ?m"
    by simp
  with m have "s = ?ws1 @ trim s @ ?ws2"
    by simp
  moreover have "\<forall>c\<in>set ?ws1. isWhiteSpace c"
    by (auto dest: set_takeWhileD)
  moreover have "\<forall>c\<in>set ?ws2. isWhiteSpace c"
    by (auto dest: set_takeWhileD)
  ultimately show ?thesis
    by blast
qed

text \<open>A bullet that leads the line, after white space or not, is taken off, and the
  text that follows it is what is shown.\<close>

lemma leading_bullet_stripped:
  assumes "trim l = BULLET # r"
  shows "trim (replace_first BULLET l) = trim r"
proof -
  from trim_decompose [of l] assms obtain ws1 ws2 where
    l: "l = ws1 @ (BULLET # r) @ ws2" and
    w1: "\<forall>c\<in>set ws1. isWhiteSpace c" and w2: "\<forall>c\<in>set ws2. isWhiteSpace c"
    by auto
  from w1 have "BULLET \<notin> set ws1"
    using bullet_not_white by blast
  then have "replace_first BULLET l = ws1 @ r @ ws2"
    by (simp add: l replace_first_def remove1_append)
  with w1 w2 show ?thesis
    by (simp add: trim_white_around)
qed

lemma no_bullet_kept: "BULLET \<notin> set l \<Longrightarrow> trim (replace_first BULLET l) = trim l"
  by (simp add: replace_first_def remove1_idem)

lemma bullets_SummaryLines_map:
  "bullets (SummaryLines (map (\<lambda>l. if P l then Some (f l) else None) ls))
     = map f (filter P ls)"
  by (induction ls) simp_all

text \<open>
  Claim C8. For every summary text the display takes the text as lines separated by
  newlines and renders exactly one bullet per line that is not blank, in order; the text
  of a bullet is the line with its leading bullet character stripped and trimmed.
\<close>

theorem summary_one_bullet_per_line:
  "(\<exists>v. summaryTab (JStr s) = Inr v
       \<and> bullets v = map (\<lambda>l. trim (replace_first BULLET l))
                        (filter (\<lambda>l. trim l \<noteq> []) (split_on LF s))
       \<and> length (bullets v) = length (filter (\<lambda>l. trim l \<noteq> []) (split_on LF s)))
   \<and> (\<forall>l r. trim l = BULLET # r \<longrightarrow> trim (replace_first BULLET l) = trim r)
   \<and> (\<forall>l. BULLET \<notin> set l \<longrightarrow> trim (replace_first BULLET l) = trim l)"
proof -
  have view: "\<exists>v. summaryTab (JStr s) = Inr v
       \<and> bullets v = map (\<lambda>l. trim (replace_first BULLET l))
                        (filter (\<lambda>l. trim l \<noteq> []) (split_on LF s))"
  proof (cases "s = []")
    case True
    then show ?thesis
      by (simp add: summaryTab_def trim_Nil)
  next
    case False
    then have "summaryTab (JStr s) = Inr (SummaryLines
         (map (\<lambda>line. if trim line \<noteq> [] then Some (trim (replace_first BULLET line)) else None)
            (split_on LF s)))"
      by (simp add: summaryTab_def)
    moreover have "bullets (SummaryLines
         (map (\<lambda>line. if trim line \<noteq> [] then Some (trim (replace_first BULLET line)) else None)
            (split_on LF s)))
       = map (\<lambda>l. trim (replace_first BULLET l)) (filter (\<lambda>l. trim l \<noteq> []) (split_on LF s))"
      by (rule bullets_SummaryLines_map)
    ultimately show ?thesis
      by (simp del: bullets.simps)
  qed
  then have count: "\<exists>v. summaryTab (JStr s) = Inr v
       \<and> bullets v = map (\<lambda>l. trim (replace_first BULLET l))
                        (filter (\<lambda>l. trim l \<noteq> []) (split_on LF s))
       \<and> length (bullets v) = length (filter (\<lambda>l. trim l \<noteq> []) (split_on LF s))"
    by auto
  from count leading_bullet_stripped no_bullet_kept show ?thesis
    by blast
qed

text \<open>Two bullet lines with a blank line between them; the second is indented.\<close>

theorem summary_one_bullet_per_line_witness:
  "summaryTab (JStr ([8226] @ ustr '' A'' @ [10, 10] @ ustr ''  '' @ [8226] @ ustr '' B ''))
     = Inr (SummaryLines [Some (ustr ''A''), None, Some (ustr ''B'')])
   \<and> bullets (SummaryLines [Some (ustr ''A''), None, Some (ustr ''B'')]) = [ustr ''A'', ustr ''B'']
   \<and> filter (\<lambda>l. trim l \<noteq> [])
        (split_on LF ([8226] @ ustr '' A'' @ [10, 10] @ ustr ''  '' @ [8226] @ ustr '' B ''))
     = [[8226] @ ustr '' A'', ustr ''  '' @ [8226] @ ustr '' B '']
   \<and> trim ([8226] @ ustr '' A'') = BULLET # ustr '' A''
   \<and> trim (replace_first BULLET ([8226] @ ustr '' A'')) = trim (ustr '' A'')"
  using summary_one_bullet_per_line
    [of "[8226] @ ustr '' A'' @ [10, 10] @ ustr ''  '' @ [8226] @ ustr '' B ''"]
  by (simp add: summaryTab_def ustr_def LF_def BULLET_def replace_first_def trim_def
      trimStart_def trimEnd_def isWhiteSpace_def)

section \<open>Properties: the order of the cards\<close>

text \<open>Insertion keeps a list ordered by a numeric key, greatest first, when the
  comparator is the difference of the keys.\<close>

lemma insert_by_desc:
  assumes "\<forall>y\<in>set ys. cmp x y = Inr (Some (key y - key x))"
    and "sorted_wrt (\<lambda>a b. key b \<le> key a) ys"
  shows "\<exists>zs. insert_by cmp x ys = Inr zs \<and> mset zs = add_mset x (mset ys)
              \<and> sorted_wrt (\<lambda>a b. key b \<le> (key a :: int)) zs"
  using assms
proof (induction ys)
  case Nil
  then show ?case by simp
next
  case (Cons y ys)
  from Cons.prems have cxy: "cmp x y = Inr (Some (key y - key x))"
    by simp
  show ?case
  proof (cases "key y \<le> key x")
    case True
    with Cons.prems cxy show ?thesis
      by (auto simp: cmp_value_def)
  next
    case False
    from Cons.prems have "\<forall>z\<in>set ys. cmp x z = Inr (Some (key z - key x))"
      and "sorted_wrt (\<lambda>a b. key b \<le> key a) ys"
      by simp_all
    with Cons.IH obtain zs where zs: "insert_by cmp x ys = Inr zs"
      "mset zs = add_mset x (mset ys)" "sorted_wrt (\<lambda>a b. key b \<le> key a) zs"
      by blast
    from zs(2) have "set zs = insert x (set ys)"
      by (metis set_mset_add_mset_insert set_mset_mset)
    with Cons.prems False have "\<forall>z\<in>set zs. key z \<le> key y"
      by auto
    with zs cxy False show ?thesis
      by (simp add: cmp_value_def)
  qed
qed

lemma js_sort_desc:
  assumes "\<forall>a\<in>set xs. \<forall>b\<in>set xs. cmp a b = Inr (Some (key b - key a))"
  shows "\<exists>ys. js_sort cmp xs = Inr ys \<and> mset ys = mset xs
              \<and> sorted_wrt (\<lambda>a b. key b \<le> (key a :: int)) ys"
  using assms
proof (induction xs)
  case Nil
  then show ?case by simp
next
  case (Cons x xs)
  then obtain ys where ys: "js_sort cmp xs = Inr ys" "mset ys = mset xs"
    "sorted_wrt (\<lambda>a b. key b \<le> key a) ys"
    by auto
  from ys(2) have "set ys = set xs"
    by (metis set_mset_mset)
  with Cons.prems have cx: "\<forall>y\<in>set ys. cmp x y = Inr (Some (key y - key x))"
    by simp
  from cx ys(3) have "\<exists>zs. insert_by cmp x ys = Inr zs \<and> mset zs = add_mset x (mset ys)
              \<and> sorted_wrt (\<lambda>a b. key b \<le> key a) zs"
    by (rule insert_by_desc)
  with ys(1,2) show ?case
    by auto
qed

lemma compareEmails_timestamp:
  assumes "dateValue (getv a ''timestamp'') \<noteq> None" and "dateValue (getv b ''timestamp'') \<noteq> None"
  shows "compareEmails dateValue localeCompare ''timestamp'' a b
     = Inr (Some (the (dateValue (getv b ''timestamp'')) - the (dateValue (getv a ''timestamp''))))"
  using assms by (auto simp: compareEmails_def)

lemma compareEmails_priority:
  assumes "priorityOrder (getv a ''priority'') \<noteq> None" and "priorityOrder (getv b ''priority'') \<noteq> None"
  shows "compareEmails dateValue localeCompare ''priority'' a b
     = Inr (Some (the (priorityOrder (getv b ''priority'')) - the (priorityOrder (getv a ''priority''))))"
  using assms by (auto simp: compareEmails_def)

text \<open>
  Claim C7. Under the default ordering, by date, the cards shown are the emails given,
  sorted by timestamp in descending order: no email stands before one with a strictly
  later timestamp. The emails are those of the data model, each with a timestamp that is a
  valid date; for an invalid date the comparator yields \<open>NaN\<close> and the order is the
  engine's choice.
\<close>

theorem sorted_by_date_descending:
  assumes "\<forall>e\<in>set es. dateValue (getv e ''timestamp'') \<noteq> None"
  shows "\<exists>ys. sortedEmails dateValue localeCompare sortBy_init es = Inr ys
           \<and> mset ys = mset es
           \<and> sorted_wrt (\<lambda>a b. the (dateValue (getv b ''timestamp''))
                                 \<le> the (dateValue (getv a ''timestamp''))) ys
           \<and> (\<forall>i j. i < j \<and> j < length ys \<longrightarrow>
                 \<not> the (dateValue (getv (ys ! i) ''timestamp''))
                     < the (dateValue (getv (ys ! j) ''timestamp'')))"
proof -
  let ?key = "\<lambda>e. the (dateValue (getv e ''timestamp''))"
  from assms have "\<forall>a\<in>set es. \<forall>b\<in>set es.
      compareEmails dateValue localeCompare ''timestamp'' a b = Inr (Some (?key b - ?key a))"
    by (simp add: compareEmails_timestamp)
  then have "\<exists>ys. js_sort (compareEmails dateValue localeCompare ''timestamp'') es = Inr ys
      \<and> mset ys = mset es \<and> sorted_wrt (\<lambda>a b. ?key b \<le> ?key a) ys"
    by (rule js_sort_desc)
  then obtain ys where
    ys: "js_sort (compareEmails dateValue localeCompare ''timestamp'') es = Inr ys"
      "mset ys = mset es" "sorted_wrt (\<lambda>a b. ?key b \<le> ?key a) ys"
    by blast
  from ys(3) have "\<forall>i j. i < j \<and> j < length ys \<longrightarrow> \<not> ?key (ys ! i) < ?key (ys ! j)"
    by (simp add: sorted_wrt_iff_nth_less not_less)
  with ys show ?thesis
    by (auto simp: sortedEmails_def sortBy_init_def)
qed

theorem sorted_by_date_descending_witness:
  "sortedEmails (\<lambda>v. case v of JNum n \<Rightarrow> Some n | _ \<Rightarrow> None) (\<lambda>s v. 0) sortBy_init
     [[(''id'', JNum 1), (''timestamp'', JNum 10)],
      [(''id'', JNum 2), (''timestamp'', JNum 30)],
      [(''id'', JNum 3), (''timestamp'', JNum 20)]]
   = Inr [[(''id'', JNum 2), (''timestamp'', JNum 30)],
          [(''id'', JNum 3), (''timestamp'', JNum 20)],
          [(''id'', JNum 1), (''timestamp'', JNum 10)]]"
proof -
  have h: "\<forall>e\<in>set [[(''id'', JNum 1), (''timestamp'', JNum 10)],
      [(''id'', JNum 2), (''timestamp'', JNum 30)],
      [(''id'', JNum 3), (''timestamp'', JNum 20)]].
        (case getv e ''timestamp'' of JNum n \<Rightarrow> Some n | _ \<Rightarrow> None) \<noteq> None"
    by (simp add: getv_def)
  show ?thesis
    using sorted_by_date_descending [of
     "[[(''id'', JNum 1), (''timestamp'', JNum 10)],
      [(''id'', JNum 2), (''timestamp'', JNum 30)],
      [(''id'', JNum 3), (''timestamp'', JNum 20)]]"
     "\<lambda>v. case v of JNum n \<Rightarrow> Some n | _ \<Rightarrow> None" "\<lambda>s v. 0", OF h]
    by (simp add: sortedEmails_def sortBy_init_def compareEmails_def getv_def cmp_value_def)
qed

text \<open>
  Claim C5. The priority used for sorting is the backend's \<open>priority\<close> field and nothing
  else: the comparator is a function of the two \<open>priority\<close> fields alone, whatever the
  subjects and bodies are, and the cards come out by descending rank of that field.
\<close>

theorem priority_order_reads_backend_field:
  "(getv a ''priority'' = getv a' ''priority'' \<and> getv b ''priority'' = getv b' ''priority'' \<longrightarrow>
      compareEmails dateValue localeCompare ''priority'' a b
        = compareEmails dateValue localeCompare ''priority'' a' b')
   \<and> ((\<forall>e\<in>set es. priorityOrder (getv e ''priority'') \<noteq> None) \<longrightarrow>
        (\<exists>ys. sortedEmails dateValue localeCompare ''priority'' es = Inr ys
           \<and> mset ys = mset es
           \<and> sorted_wrt (\<lambda>x y. the (priorityOrder (getv y ''priority''))
                                 \<le> the (priorityOrder (getv x ''priority''))) ys))"
proof -
  let ?key = "\<lambda>e. the (priorityOrder (getv e ''priority''))"
  have dep: "getv a ''priority'' = getv a' ''priority'' \<and> getv b ''priority'' = getv b' ''priority'' \<longrightarrow>
      compareEmails dateValue localeCompare ''priority'' a b
        = compareEmails dateValue localeCompare ''priority'' a' b'"
    by (simp add: compareEmails_def)
  have ord: "(\<forall>e\<in>set es. priorityOrder (getv e ''priority'') \<noteq> None) \<longrightarrow>
        (\<exists>ys. sortedEmails dateValue localeCompare ''priority'' es = Inr ys
           \<and> mset ys = mset es \<and> sorted_wrt (\<lambda>x y. ?key y \<le> ?key x) ys)"
  proof
    assume "\<forall>e\<in>set es. priorityOrder (getv e ''priority'') \<noteq> None"
    then have "\<forall>x\<in>set es. \<forall>y\<in>set es.
      compareEmails dateValue localeCompare ''priority'' x y = Inr (Some (?key y - ?key x))"
      by (simp add: compareEmails_priority)
    then have "\<exists>ys. js_sort (compareEmails dateValue localeCompare ''priority'') es = Inr ys
           \<and> mset ys = mset es \<and> sorted_wrt (\<lambda>x y. ?key y \<le> ?key x) ys"
      by (rule js_sort_desc)
    then show "\<exists>ys. sortedEmails dateValue localeCompare ''priority'' es = Inr ys
           \<and> mset ys = mset es \<and> sorted_wrt (\<lambda>x y. ?key y \<le> ?key x) ys"
      by (simp add: sortedEmails_def)
  qed
  from dep ord show ?thesis
    by blast
qed

text \<open>The subjects say urgent and re:, the order follows the \<open>priority\<close> fields.\<close>

theorem priority_order_reads_backend_field_witness:
  "sortedEmails (\<lambda>v. None) (\<lambda>s v. 0) ''priority''
     [[(''subject'', JStr (ustr ''urgent'')), (''priority'', JStr (ustr ''normal''))],
      [(''subject'', JStr (ustr ''hello'')), (''priority'', JStr (ustr ''high''))],
      [(''subject'', JStr (ustr ''re: x'')), (''priority'', JStr (ustr ''medium''))]]
   = Inr [[(''subject'', JStr (ustr ''hello'')), (''priority'', JStr (ustr ''high''))],
          [(''subject'', JStr (ustr ''re: x'')), (''priority'', JStr (ustr ''medium''))],
          [(''subject'', JStr (ustr ''urgent'')), (''priority'', JStr (ustr ''normal''))]]
   \<and> compareEmails (\<lambda>v. None) (\<lambda>s v. 0) ''priority''
        [(''subject'', JStr (ustr ''urgent'')), (''priority'', JStr (ustr ''normal''))]
        [(''subject'', JStr (ustr ''hello'')), (''priority'', JStr (ustr ''high''))]
     = compareEmails (\<lambda>v. None) (\<lambda>s v. 0) ''priority''
        [(''subject'', JStr (ustr ''other'')), (''priority'', JStr (ustr ''normal''))]
        [(''subject'', JStr (ustr ''urgent'')), (''priority'', JStr (ustr ''high''))]"
  using priority_order_reads_backend_field [of
        "[(''subject'', JStr (ustr ''urgent'')), (''priority'', JStr (ustr ''normal''))]"
        "[(''subject'', JStr (ustr ''other'')), (''priority'', JStr (ustr ''normal''))]"
        "[(''subject'', JStr (ustr ''hello'')), (''priority'', JStr (ustr ''high''))]"
        "[(''subject'', JStr (ustr ''urgent'')), (''priority'', JStr (ustr ''high''))]"
        "\<lambda>v. None" "\<lambda>s v. 0"
     "[[(''subject'', JStr (ustr ''urgent'')), (''priority'', JStr (ustr ''normal''))],
      [(''subject'', JStr (ustr ''hello'')), (''priority'', JStr (ustr ''high''))],
      [(''subject'', JStr (ustr ''re: x'')), (''priority'', JStr (ustr ''medium''))]]"]
  by (simp add: sortedEmails_def compareEmails_def getv_def cmp_value_def priorityOrder_def ustr_def)

end
